theory Spec2Isabelle
  imports Complex_Main "HOL-Library.Word"
begin

unbundle bit_operations_syntax

section \<open>The 32-bit int\<close>

text \<open>
  A C++ \<^verbatim>\<open>int\<close> of the wasm32 target has 32 bits. Variables of type \<^verbatim>\<open>int\<close> are
  modelled as \<^typ>\<open>int\<close>; where a sum, a difference or a product of two
  \<^verbatim>\<open>int\<close>s can leave the range of the type, the model puts it through \<open>int32\<close>,
  which gives the value the 32-bit result holds: the target's \<^verbatim>\<open>i32\<close> arithmetic
  wraps around. \<open>int_range v\<close> says that \<open>v\<close> is a value of the type.
\<close>

definition int32 :: "int \<Rightarrow> int" where
  "int32 v = (v + 2147483648) mod 4294967296 - 2147483648"

definition int_range :: "int \<Rightarrow> bool" where
  "int_range v \<longleftrightarrow> - 2147483648 \<le> v \<and> v < 2147483648"

section \<open>The Emscripten graphics driver: clip stack\<close>

text \<open>
  \<^verbatim>\<open>Fl_Emscripten_Graphics_Driver.cxx\<close> keeps the clip regions in a linked list of
  \<^verbatim>\<open>EmClip\<close> objects (\<^verbatim>\<open>x, y, w, h, prev\<close>) hanging off the global pointer
  \<^verbatim>\<open>emclip_\<close>. The list is modelled as a HOL list whose head is the object
  \<^verbatim>\<open>emclip_\<close> points to; the null pointer is the empty list. (Isabelle names
  cannot end in an underscore, so \<^verbatim>\<open>emclip_\<close>, \<^verbatim>\<open>gap_\<close>, \<^verbatim>\<open>width_\<close>, ... lose
  theirs below.)
\<close>


record EmClip =
  clip_x :: int
  clip_y :: int
  clip_w :: int
  clip_h :: int

type_synonym rect = "int \<times> int \<times> int \<times> int"

text \<open>
  \<^verbatim>\<open>clip_box(x, y, w, h, X, Y, W, H)\<close> writes through the references \<^verbatim>\<open>X, Y, W, H\<close>.
  The model takes the values the four references hold on entry (\<open>out\<close>) and returns
  the return value together with the values they hold on exit. The early
  \<^verbatim>\<open>return 1\<close> after \<^verbatim>\<open>W = 0\<close> leaves \<^verbatim>\<open>H\<close> as it was on entry.
\<close>

definition clip_box :: "EmClip list \<Rightarrow> int \<Rightarrow> int \<Rightarrow> int \<Rightarrow> int \<Rightarrow> rect \<Rightarrow> int \<times> rect" where
  "clip_box emclip x y w h out =
     (case emclip of
        [] \<Rightarrow> (0, (x, y, w, h))
      | c # prev \<Rightarrow>
          if clip_w c < 0 then (1, (x, y, w, h))
          else
            (case out of (X0, Y0, W0, H0) \<Rightarrow>
              let ret0 = (0::int);
                  (X, ret1) = (if x > clip_x c then (x, 1) else (clip_x c, ret0));
                  (Y, ret2) = (if y > clip_y c then (y, 1) else (clip_y c, ret1));
                  (W, ret3) = (if int32 (x + w) < int32 (clip_x c + clip_w c)
                               then (int32 (int32 (x + w) - X), 1)
                               else (int32 (int32 (clip_x c + clip_w c) - X), ret2))
              in if W < 0 then (1, (X, Y, 0, H0))
                 else
                   let (H, ret4) = (if int32 (y + h) < int32 (clip_y c + clip_h c)
                                    then (int32 (int32 (y + h) - Y), 1)
                                    else (int32 (int32 (clip_y c + clip_h c) - Y), ret3))
                   in if H < 0 then (1, (X, Y, 0, 0)) else (ret4, (X, Y, W, H))))"

text \<open>
  The intersection of the rectangle \<open>(x, y, w, h)\<close> with a clip entry, edge by edge:
  left and top edges are the larger ones, right and bottom edges the smaller ones.
  The extents may come out negative when the rectangles are apart. These are the
  numbers of the mathematical rectangle, with no wrap-around.
\<close>

definition isect_x :: "EmClip \<Rightarrow> int \<Rightarrow> int" where
  "isect_x c x = max x (clip_x c)"

definition isect_y :: "EmClip \<Rightarrow> int \<Rightarrow> int" where
  "isect_y c y = max y (clip_y c)"

definition isect_w :: "EmClip \<Rightarrow> int \<Rightarrow> int \<Rightarrow> int" where
  "isect_w c x w = min (x + w) (clip_x c + clip_w c) - max x (clip_x c)"

definition isect_h :: "EmClip \<Rightarrow> int \<Rightarrow> int \<Rightarrow> int" where
  "isect_h c y h = min (y + h) (clip_y c + clip_h c) - max y (clip_y c)"

text \<open>The rectangle \<open>(x, y, w, h)\<close> covers the whole clip entry.\<close>

definition covers :: "EmClip \<Rightarrow> int \<Rightarrow> int \<Rightarrow> int \<Rightarrow> int \<Rightarrow> bool" where
  "covers c x y w h \<longleftrightarrow>
     x \<le> clip_x c \<and> y \<le> clip_y c \<and>
     clip_x c + clip_w c \<le> x + w \<and> clip_y c + clip_h c \<le> y + h"

text \<open>
  \<^verbatim>\<open>not_clipped\<close> calls \<^verbatim>\<open>clip_box\<close> on locals initialised to 0 and looks at
  \<^verbatim>\<open>W\<close> only.
\<close>

definition not_clipped :: "EmClip list \<Rightarrow> int \<Rightarrow> int \<Rightarrow> int \<Rightarrow> int \<Rightarrow> int" where
  "not_clipped emclip x y w h =
     (case emclip of
        [] \<Rightarrow> 1
      | c # prev \<Rightarrow>
          if clip_w c < 0 then 1
          else (case clip_box emclip x y w h (0, 0, 0, 0) of
                  (r, X, Y, W, H) \<Rightarrow> if W \<noteq> 0 then 1 else 0))"


section \<open>The driver object and the canvas\<close>

text \<open>
  Every \<^verbatim>\<open>EM_ASM\<close> block calls methods of the browser's 2D context \<^verbatim>\<open>ctxt\<close>. The
  browser is outside the program, so the model records the calls: the field
  \<open>ctxt\<close> of the driver state is the list of canvas calls made so far, oldest
  first. C++ \<^verbatim>\<open>double\<close> values are modelled as exact reals; rounding is not modelled.
\<close>

datatype canvas_op =
    Save
  | Restore
  | BeginPath
  | ClosePath
  | Stroke
  | Fill
  | Clip
  | ResetTransform
  | Rect real real real real
  | Transform real real real real real real
  | MoveTo real real
  | LineTo real real
  | BezierCurveTo real real real real real real
  | Arc real real real real real bool
  | LineWidth int
  | LineCap string
  | LineJoin string
  | SetLineDash "real list"
  | PutImageData "8 word list" int int int int int int int int

text \<open>The shape being built, as the member \<^verbatim>\<open>what\<close> holds it.\<close>

datatype shape = NONE | POINTS | LINE | LOOP | POLYGON

text \<open>The transformation matrix \<^verbatim>\<open>Fl_Graphics_Driver::matrix\<close>, fields \<^verbatim>\<open>a b c d x y\<close>.\<close>

record matrix =
  m_a :: real
  m_b :: real
  m_c :: real
  m_d :: real
  m_x :: real
  m_y :: real

record driver =
  emclip :: "EmClip list"
  what :: shape
  gap :: int
  m :: matrix
  line_style_val :: int
  width_val :: int
  linecap :: string
  linejoin :: string
  linedash :: string
  ctxt :: "canvas_op list"

definition emit :: "canvas_op list \<Rightarrow> driver \<Rightarrow> driver" where
  "emit ops s = s\<lparr>ctxt := ctxt s @ ops\<rparr>"

text \<open>
  The driver as the constructor leaves it: \<^verbatim>\<open>width_ = 0\<close>, \<^verbatim>\<open>line_style_ = 0\<close>,
  \<^verbatim>\<open>linecap_\<close> the string \<^verbatim>\<open>butt\<close>, \<^verbatim>\<open>linejoin_\<close> the string \<^verbatim>\<open>miter\<close>,
  \<^verbatim>\<open>what = NONE\<close>. The members it
  does not set are given values here: no clip entry, no gap, the identity matrix,
  an empty dash string, and no canvas call so far.
\<close>

definition new_driver :: driver where
  "new_driver =
     \<lparr>emclip = [], what = NONE, gap = 0,
      m = \<lparr>m_a = 1, m_b = 0, m_c = 0, m_d = 1, m_x = 0, m_y = 0\<rparr>,
      line_style_val = 0, width_val = 0, linecap = ''butt'', linejoin = ''miter'',
      linedash = [], ctxt = []\<rparr>"

subsection \<open>push\_clip, push\_no\_clip, pop\_clip\<close>

text \<open>
  \<^verbatim>\<open>new EmClip()\<close> value-initialises the object, so the references handed to
  \<^verbatim>\<open>clip_box\<close> hold 0 on entry.
\<close>

definition push_clip :: "int \<Rightarrow> int \<Rightarrow> int \<Rightarrow> int \<Rightarrow> driver \<Rightarrow> driver" where
  "push_clip x y w h s =
     (case clip_box (emclip s) x y w h (0, 0, 0, 0) of
        (r, X, Y, W, H) \<Rightarrow>
          let c = \<lparr>clip_x = X, clip_y = Y, clip_w = W, clip_h = H\<rparr>
          in emit [Save, Rect (real_of_int X - 1 / 2) (real_of_int Y - 1 / 2)
                          (real_of_int W) (real_of_int H), Clip]
                  (s\<lparr>emclip := c # emclip s\<rparr>))"

definition push_no_clip :: "driver \<Rightarrow> driver" where
  "push_no_clip s =
     (let c = \<lparr>clip_x = - 1, clip_y = - 1, clip_w = - 1, clip_h = - 1\<rparr>
      in emit [Save, Restore] (s\<lparr>emclip := c # emclip s\<rparr>))"

definition pop_clip :: "driver \<Rightarrow> driver" where
  "pop_clip s =
     (case emclip s of
        [] \<Rightarrow> s
      | c # prev \<Rightarrow> emit [Restore] (s\<lparr>emclip := prev\<rparr>))"

subsection \<open>The path state machine\<close>

definition concat_m :: "driver \<Rightarrow> driver" where
  "concat_m s =
     emit [Transform (m_a (m s)) (m_b (m s)) (m_c (m s)) (m_d (m s)) (m_x (m s)) (m_y (m s))] s"

definition reconcat :: "driver \<Rightarrow> driver" where
  "reconcat s = emit [ResetTransform] s"

definition begin_points :: "driver \<Rightarrow> driver" where
  "begin_points s = (emit [BeginPath] (concat_m (emit [Save] s)))\<lparr>gap := 1, what := POINTS\<rparr>"

definition begin_line :: "driver \<Rightarrow> driver" where
  "begin_line s = (emit [BeginPath] (concat_m (emit [Save] s)))\<lparr>gap := 1, what := LINE\<rparr>"

definition begin_loop :: "driver \<Rightarrow> driver" where
  "begin_loop s = (emit [BeginPath] (concat_m (emit [Save] s)))\<lparr>gap := 1, what := LOOP\<rparr>"

definition begin_polygon :: "driver \<Rightarrow> driver" where
  "begin_polygon s = (emit [BeginPath] (concat_m (emit [Save] s)))\<lparr>gap := 1, what := POLYGON\<rparr>"

definition end_line :: "driver \<Rightarrow> driver" where
  "end_line s = (emit [Stroke, Restore] (reconcat (s\<lparr>gap := 1\<rparr>)))\<lparr>what := NONE\<rparr>"

definition end_points :: "driver \<Rightarrow> driver" where
  "end_points s = end_line s"

definition end_loop :: "driver \<Rightarrow> driver" where
  "end_loop s = (emit [ClosePath, Stroke, Restore] (reconcat (s\<lparr>gap := 1\<rparr>)))\<lparr>what := NONE\<rparr>"

definition end_polygon :: "driver \<Rightarrow> driver" where
  "end_polygon s = (emit [ClosePath, Fill, Restore] (reconcat (s\<lparr>gap := 1\<rparr>)))\<lparr>what := NONE\<rparr>"

text \<open>
  \<^verbatim>\<open>arc(double x, double y, double r, double start, double end)\<close>. The JavaScript
  passes the angles negated and in radians, and \<^verbatim>\<open>true\<close> (counter-clockwise) unless
  \<^verbatim>\<open>start > end\<close>.
\<close>

definition arc :: "real \<Rightarrow> real \<Rightarrow> real \<Rightarrow> real \<Rightarrow> real \<Rightarrow> driver \<Rightarrow> driver" where
  "arc x y r start end' s =
     (if what s = NONE then s
      else
        let s1 = (if gap s = 1 then emit [BeginPath] s else s);
            s2 = s1\<lparr>gap := 0\<rparr>
        in emit [Arc x y r (- start * pi / 180) (- end' * pi / 180) (\<not> start > end')] s2)"

text \<open>
  \<^verbatim>\<open>curve\<close> hands the shape \<^verbatim>\<open>POINTS\<close> to \<^verbatim>\<open>Fl_Graphics_Driver::curve\<close> of the
  toolkit core, which is not part of these sources: it is the parameter
  \<open>base_curve\<close>.
\<close>

definition curve ::
  "(driver \<Rightarrow> driver) \<Rightarrow> real \<Rightarrow> real \<Rightarrow> real \<Rightarrow> real \<Rightarrow> real \<Rightarrow> real \<Rightarrow> real \<Rightarrow> real \<Rightarrow> driver \<Rightarrow> driver" where
  "curve base_curve x y x1 y1 x2 y2 x3 y3 s =
     (if what s = NONE then s
      else if what s = POINTS then base_curve s
      else
        (emit [if gap s \<noteq> 0 then MoveTo x y else LineTo x y, BezierCurveTo x1 y1 x2 y2 x3 y3] s)
          \<lparr>gap := 0\<rparr>)"


subsection \<open>line\_style\<close>

text \<open>
  Modelled from the spec: the line-style constants of the toolkit's
  \<^verbatim>\<open>FL/Enumerations.H\<close>, which is not among these sources. The claims name them;
  the values are the header's.
\<close>

definition FL_CAP_FLAT :: int where "FL_CAP_FLAT = 0x100"






text \<open>
  A \<^verbatim>\<open>char\<close> read as a number. \<^verbatim>\<open>char\<close> is signed on the wasm32 target, so bytes from
  128 on are negative.
\<close>

definition char_val :: "char \<Rightarrow> int" where
  "char_val c = (if (of_char c :: int) < 128 then of_char c else of_char c - 256)"






subsection \<open>invert\_matrix\<close>

text \<open>
  \<^verbatim>\<open>int det = m.a * m.d - m.b * m.c\<close> converts a \<^verbatim>\<open>double\<close> to \<^verbatim>\<open>int\<close>, which drops
  the fraction (rounds towards zero); \<^verbatim>\<open>1 / det\<close> is then a division of two
  \<^verbatim>\<open>int\<close>s, which also rounds towards zero, and only its result becomes a
  \<^verbatim>\<open>double\<close>. The products and the difference of \<^verbatim>\<open>double\<close>s are taken as exact
  reals, so the model follows the code on the matrices whose entries and
  products are exact in \<^verbatim>\<open>double\<close> arithmetic; where a product rounds, the \<^verbatim>\<open>int\<close>
  the code gets can differ from the one of the model.
\<close>

definition double_to_int :: "real \<Rightarrow> int" where
  "double_to_int r = (if 0 \<le> r then \<lfloor>r\<rfloor> else - \<lfloor>- r\<rfloor>)"

definition c_div :: "int \<Rightarrow> int \<Rightarrow> int" where
  "c_div a b = sgn a * sgn b * (\<bar>a\<bar> div \<bar>b\<bar>)"

definition invert_matrix :: "matrix \<Rightarrow> matrix \<Rightarrow> int \<times> matrix" where
  "invert_matrix mt newmatrix =
     (let det = double_to_int (m_a mt * m_d mt - m_b mt * m_c mt)
      in if det = 0 then (- 1, newmatrix)
         else
           let invDet = real_of_int (c_div 1 det)
           in (0, \<lparr>m_a = m_d mt * invDet,
                    m_b = - m_b mt * invDet,
                    m_c = - m_c mt * invDet,
                    m_d = m_a mt * invDet,
                    m_x = (m_c mt * m_y mt - m_d mt * m_x mt) * invDet,
                    m_y = (m_b mt * m_x mt - m_a mt * m_y mt) * invDet\<rparr>))"

text \<open>
  What the claim asks of an inverse: applying \<open>n\<close> after \<open>mt\<close> gives every point
  back. A matrix maps \<open>(px, py)\<close> to \<open>(px * a + py * c + x, px * b + py * d + y)\<close>, the
  order in which \<^verbatim>\<open>ctx.transform(m.a, m.b, m.c, m.d, m.x, m.y)\<close> reads its arguments.
\<close>

definition apply_matrix :: "matrix \<Rightarrow> real \<times> real \<Rightarrow> real \<times> real" where
  "apply_matrix mt p =
     (fst p * m_a mt + snd p * m_c mt + m_x mt, fst p * m_b mt + snd p * m_d mt + m_y mt)"


subsection \<open>Images\<close>

text \<open>
  Modelled from the spec: the class \<^verbatim>\<open>Fl_RGB_Image\<close> is declared in the toolkit's
  \<^verbatim>\<open>FL/Fl_Image.H\<close>, which is not among these sources. The record holds what the
  driver reads, \<^verbatim>\<open>data_w()\<close>, \<^verbatim>\<open>data_h()\<close>, \<^verbatim>\<open>d()\<close> and \<^verbatim>\<open>array\<close> (a null pointer,
  \<open>None\<close>, or the bytes it points to), and the line size \<^verbatim>\<open>ld()\<close>, which the driver
  never reads: the number of bytes from one row of pixels to the next, where 0
  stands for \<^verbatim>\<open>data_w() * d()\<close>. The constructor with four arguments, the only one
  these sources call, leaves it 0. A byte (\<^verbatim>\<open>uchar\<close>) is an \<^typ>\<open>8 word\<close>.
\<close>

record Fl_RGB_Image =
  data_w :: int
  data_h :: int
  img_d :: int
  img_ld :: int
  img_array :: "8 word list option"

text \<open>
  What stops a function before its end: the \<^verbatim>\<open>std::length_error\<close> of
  \<^verbatim>\<open>std::vector::reserve\<close> for a size beyond \<^verbatim>\<open>max_size()\<close>, which is where a negative
  \<^verbatim>\<open>int\<close> lands when it is converted to the unsigned \<^verbatim>\<open>size_type\<close>; the
  \<^verbatim>\<open>std::bad_array_new_length\<close> of \<^verbatim>\<open>new uchar[n]\<close> for a negative \<open>n\<close>; and an access
  outside an array, which is undefined behaviour. Running out of memory is not
  modelled.
\<close>

datatype error = Length_error | Bad_array_new_length | Out_of_bounds

text \<open>
  The four conversion loops. Reading \<^verbatim>\<open>array[i]\<close> past the last byte gives \<open>None\<close>.
\<close>

function copy4 :: "8 word list \<Rightarrow> int \<Rightarrow> nat \<Rightarrow> 8 word list \<Rightarrow> 8 word list option" where
  "copy4 arr sz i image_data =
     (if int i < sz then
        (if i < length arr then copy4 arr sz (i + 1) (image_data @ [arr ! i]) else None)
      else Some image_data)"
  by pat_completeness auto
termination
  by (relation "measure (\<lambda>(arr, sz, i, image_data). nat (sz - int i))") auto

function copy3 :: "8 word list \<Rightarrow> int \<Rightarrow> nat \<Rightarrow> 8 word list \<Rightarrow> 8 word list option" where
  "copy3 arr sz i image_data =
     (if int i < sz then
        (if i + 2 < length arr
         then copy3 arr sz (i + 3) (image_data @ [arr ! i, arr ! (i + 1), arr ! (i + 2), 255])
         else None)
      else Some image_data)"
  by pat_completeness auto
termination
  by (relation "measure (\<lambda>(arr, sz, i, image_data). nat (sz - int i))") auto

function copy2 :: "8 word list \<Rightarrow> int \<Rightarrow> nat \<Rightarrow> 8 word list \<Rightarrow> 8 word list option" where
  "copy2 arr sz i image_data =
     (if int i < sz then
        (if i + 1 < length arr
         then copy2 arr sz (i + 2) (image_data @ [arr ! i, arr ! i, arr ! i, arr ! (i + 1)])
         else None)
      else Some image_data)"
  by pat_completeness auto
termination
  by (relation "measure (\<lambda>(arr, sz, i, image_data). nat (sz - int i))") auto

function copy1 :: "8 word list \<Rightarrow> int \<Rightarrow> nat \<Rightarrow> 8 word list \<Rightarrow> 8 word list option" where
  "copy1 arr sz i image_data =
     (if int i < sz then
        (if i < length arr
         then copy1 arr sz (i + 1) (image_data @ [arr ! i, arr ! i, arr ! i, 255])
         else None)
      else Some image_data)"
  by pat_completeness auto
termination
  by (relation "measure (\<lambda>(arr, sz, i, image_data). nat (sz - int i))") auto

text \<open>
  \<^verbatim>\<open>sz = rgb->data_w() * rgb->data_h() * rgb->d()\<close>, a product of \<^verbatim>\<open>int\<close>s, and the
  \<^verbatim>\<open>switch (rgb->d())\<close>; no case matches other depths and the vector stays empty.
\<close>

definition to_rgba :: "int \<Rightarrow> int \<Rightarrow> int \<Rightarrow> 8 word list \<Rightarrow> 8 word list option" where
  "to_rgba w h d arr =
     (let sz = int32 (int32 (w * h) * d)
      in if d = 4 then copy4 arr sz 0 []
         else if d = 3 then copy3 arr sz 0 []
         else if d = 2 then copy2 arr sz 0 []
         else if d = 1 then copy1 arr sz 0 []
         else Some [])"

text \<open>
  \<^verbatim>\<open>draw_fixed(Fl_RGB_Image *, ...)\<close>. \<^verbatim>\<open>image_data.reserve\<close> is given the \<^verbatim>\<open>int\<close>
  product \<^verbatim>\<open>data_w() * data_h() * 4\<close>.
\<close>

text \<open>
  Modelled from the spec: \<^verbatim>\<open>Fl_Graphics_Driver::draw_empty\<close> and \<^verbatim>\<open>start_image\<close>
  belong to the toolkit core, declared in \<^verbatim>\<open>FL/Fl_Graphics_Driver.H\<close>, which is
  not among these sources; both are parameters. The first is a change of the
  driver state. The second takes \<^verbatim>\<open>cx\<close>, \<^verbatim>\<open>cy\<close>, \<^verbatim>\<open>X\<close>, \<^verbatim>\<open>Y\<close>, \<^verbatim>\<open>W\<close>, \<^verbatim>\<open>H\<close> by
  reference: the parameter \<open>start_image\<close> gives its return value and the values
  it leaves in \<^verbatim>\<open>cx\<close> and \<^verbatim>\<open>cy\<close>, the two \<^verbatim>\<open>draw_fixed\<close> reads afterwards.
\<close>

definition draw_fixed ::
  "(Fl_RGB_Image \<Rightarrow> int \<Rightarrow> int \<Rightarrow> driver \<Rightarrow> driver) \<Rightarrow>
   (Fl_RGB_Image \<Rightarrow> int \<Rightarrow> int \<Rightarrow> int \<Rightarrow> int \<Rightarrow> int \<Rightarrow> int \<Rightarrow> driver \<Rightarrow> int \<times> int \<times> int) \<Rightarrow>
   Fl_RGB_Image \<Rightarrow> int \<Rightarrow> int \<Rightarrow> int \<Rightarrow> int \<Rightarrow> int \<Rightarrow> int \<Rightarrow> driver \<Rightarrow> error + driver" where
  "draw_fixed draw_empty start_image rgb XP YP WP HP cx cy s =
     (if img_d rgb = 0 \<or> img_array rgb = None then Inr (draw_empty rgb XP YP s)
      else
        (case start_image rgb XP YP WP HP cx cy s of
           (ret, cx1, cy1) \<Rightarrow>
             if ret \<noteq> 0 then Inr s
             else if int32 (int32 (data_w rgb * data_h rgb) * 4) < 0 then Inl Length_error
             else
               (case to_rgba (data_w rgb) (data_h rgb) (img_d rgb)
                       (case img_array rgb of Some arr \<Rightarrow> arr | None \<Rightarrow> []) of
                  None \<Rightarrow> Inl Out_of_bounds
                | Some image_data \<Rightarrow>
                    Inr (emit [Save,
                               Rect (real_of_int XP) (real_of_int YP) (real_of_int WP) (real_of_int HP),
                               Clip,
                               PutImageData image_data (data_w rgb) (data_h rgb) XP YP cx1 cy1 WP HP,
                               Restore] s))))"






subsection \<open>draw\_image with a row callback\<close>

text \<open>
  \<^verbatim>\<open>draw_image(Fl_Draw_Image_Cb call, void *data, ix, iy, iw, ih, D)\<close>. The callback
  is a parameter: it is handed a pointer to the row and writes the \<open>iw * D\<close> bytes
  of the row; \<open>call x y w buf k\<close> is the byte it leaves at offset \<open>k\<close> of a row that
  held the bytes \<open>buf\<close> when it was called. The fresh array of
  \<^verbatim>\<open>new uchar[iw * D * ih]\<close> is not initialised: \<open>junk\<close> gives the byte found at each
  offset. The size and the offsets \<^verbatim>\<open>l * D * iw\<close> and \<^verbatim>\<open>i * D\<close> are products of
  \<^verbatim>\<open>int\<close>s; they are added to the pointer \<^verbatim>\<open>array\<close> one after the other.
  \<^verbatim>\<open>Fl_Graphics_Driver::draw_rgb\<close> belongs to the toolkit core and is the parameter
  \<open>draw_rgb\<close>.
\<close>

text \<open>The inner loop: \<^verbatim>\<open>*(array + l * D * iw + i * D + D - 1) = 0xff\<close> for \<open>i < iw\<close>.\<close>

function set_opaque :: "int \<Rightarrow> int \<Rightarrow> int \<Rightarrow> nat \<Rightarrow> 8 word list \<Rightarrow> 8 word list option" where
  "set_opaque iw D l i array =
     (if int i < iw then
        (let pos = int32 (int32 (l * D) * iw) + int32 (int i * D) + D - 1
         in if 0 \<le> pos \<and> nat pos < length array
            then set_opaque iw D l (i + 1) (array[nat pos := 0xff])
            else None)
      else Some array)"
  by pat_completeness auto
termination
  by (relation "measure (\<lambda>(iw, D, l, i, array). nat (iw - int i))") auto

text \<open>The call \<^verbatim>\<open>call(data, 0, l, iw, array + l * D * iw)\<close>.\<close>

definition call_row ::
  "(int \<Rightarrow> int \<Rightarrow> int \<Rightarrow> 8 word list \<Rightarrow> nat \<Rightarrow> 8 word) \<Rightarrow> int \<Rightarrow> int \<Rightarrow> int \<Rightarrow> 8 word list \<Rightarrow>
     8 word list option" where
  "call_row call iw D l array =
     (let off = int32 (int32 (l * D) * iw); n = iw * D
      in if 0 \<le> off \<and> 0 \<le> n \<and> nat off + nat n \<le> length array then
           (let buf = take (nat n) (drop (nat off) array)
            in Some (take (nat off) array @ map (call 0 l iw buf) [0..<nat n] @
                     drop (nat off + nat n) array))
         else None)"

function image_rows ::
  "(int \<Rightarrow> int \<Rightarrow> int \<Rightarrow> 8 word list \<Rightarrow> nat \<Rightarrow> 8 word) \<Rightarrow> int \<Rightarrow> int \<Rightarrow> int \<Rightarrow> nat \<Rightarrow> 8 word list \<Rightarrow>
     8 word list option" where
  "image_rows call iw ih D l array =
     (if int l < ih then
        (case call_row call iw D (int l) array of
           None \<Rightarrow> None
         | Some a1 \<Rightarrow>
             if D mod 2 = 0 then
               (case set_opaque iw D (int l) 0 a1 of
                  None \<Rightarrow> None
                | Some a2 \<Rightarrow> image_rows call iw ih D (l + 1) a2)
             else image_rows call iw ih D (l + 1) a1)
      else Some array)"
  by pat_completeness auto
termination
  by (relation "measure (\<lambda>(call, iw, ih, D, l, array). nat (ih - int l))") auto

definition image_array ::
  "(int \<Rightarrow> int \<Rightarrow> int \<Rightarrow> 8 word list \<Rightarrow> nat \<Rightarrow> 8 word) \<Rightarrow> (nat \<Rightarrow> 8 word) \<Rightarrow> int \<Rightarrow> int \<Rightarrow> int \<Rightarrow>
     error + 8 word list" where
  "image_array call junk iw ih D =
     (let len = int32 (int32 (iw * D) * ih)
      in if len < 0 then Inl Bad_array_new_length
         else (case image_rows call iw ih D 0 (map junk [0..<nat len]) of
                 None \<Rightarrow> Inl Out_of_bounds
               | Some array \<Rightarrow> Inr array))"

definition draw_image ::
  "(Fl_RGB_Image \<Rightarrow> int \<Rightarrow> int \<Rightarrow> int \<Rightarrow> int \<Rightarrow> int \<Rightarrow> int \<Rightarrow> driver \<Rightarrow> driver) \<Rightarrow>
   (int \<Rightarrow> int \<Rightarrow> int \<Rightarrow> 8 word list \<Rightarrow> nat \<Rightarrow> 8 word) \<Rightarrow> (nat \<Rightarrow> 8 word) \<Rightarrow>
   int \<Rightarrow> int \<Rightarrow> int \<Rightarrow> int \<Rightarrow> int \<Rightarrow> driver \<Rightarrow> error + driver" where
  "draw_image draw_rgb call junk ix iy iw ih D s =
     (case image_array call junk iw ih D of
        Inl e \<Rightarrow> Inl e
      | Inr array \<Rightarrow>
          Inr (draw_rgb \<lparr>data_w = iw, data_h = ih, img_d = D, img_ld = 0, img_array = Some array\<rparr>
                 ix iy iw ih 0 0 s))"

text \<open>
  The offset of the last channel of pixel \<open>i\<close> in row \<open>l\<close>, for a row of \<open>W\<close> pixels
  of \<open>d\<close> bytes: the source's \<^verbatim>\<open>l * D * iw + i * D + D - 1\<close>.
\<close>

definition last_channel :: "nat \<Rightarrow> nat \<Rightarrow> nat \<Rightarrow> nat \<Rightarrow> nat" where
  "last_channel W d l i = l * d * W + i * d + d - 1"

text \<open>
  The bytes row \<open>l\<close> of the fresh array holds, which are the bytes the callback
  finds in the row when it is called for it.
\<close>

definition fresh_row :: "(nat \<Rightarrow> 8 word) \<Rightarrow> int \<Rightarrow> int \<Rightarrow> int \<Rightarrow> 8 word list" where
  "fresh_row junk iw D l = map junk [nat (l * D * iw)..<nat (l * D * iw) + nat (iw * D)]"

section \<open>The Emscripten window driver: keyboard and mouse events\<close>


definition FL_SHIFT :: int where "FL_SHIFT = 0x00010000"
definition FL_CTRL :: int where "FL_CTRL = 0x00040000"
definition FL_ALT :: int where "FL_ALT = 0x00080000"
definition FL_META :: int where "FL_META = 0x00400000"
definition FL_BUTTON1 :: int where "FL_BUTTON1 = 0x01000000"
definition FL_BUTTON2 :: int where "FL_BUTTON2 = 0x02000000"
definition FL_BUTTON3 :: int where "FL_BUTTON3 = 0x04000000"



definition special_keys :: "string list" where
  "special_keys =
     [''Backspace'', ''Tab'', ''IsoKey'', ''Enter'', ''Pause'',
      ''ScrollLock'', ''Escape'', ''Kana'', ''Eisu'', ''Yen'',
      ''JISUnderscore'', ''Home'', ''ArrowLeft'', ''ArrowUp'', ''ArrowRight'',
      ''ArrowDown'', ''PageUp'', ''PageDown'', ''End'', ''Print'',
      ''Insert'', ''Menu'', ''Help'', ''NumLock'', ''KP'',
      ''KPEnter'', ''KPLast'', ''F'', ''FLast'', ''Shift'',
      ''Shift'', ''Control'', ''Control'', ''CapsLock'', ''Meta'',
      ''Meta'', ''Alt'', ''Alt'', ''Delete'', ''AltGr'']"

text \<open>
  \<^verbatim>\<open>special_keys_equiv\<close>, entry by entry: \<^verbatim>\<open>FL_BackSpace, FL_Tab, FL_Iso_Key, FL_Enter,
  FL_Pause, FL_Scroll_Lock, FL_Escape, FL_Kana, FL_Eisu, FL_Yen, FL_JIS_Underscore, FL_Home,
  FL_Left, FL_Up, FL_Right, FL_Down, FL_Page_Up, FL_Page_Down, FL_End, FL_Print, FL_Insert,
  FL_Menu, FL_Help, FL_Num_Lock, FL_KP, FL_KP_Enter, FL_KP_Last, FL_F, FL_F_Last, FL_Shift_L,
  FL_Shift_R, FL_Control_L, FL_Control_R, FL_Caps_Lock, FL_Meta_L, FL_Meta_R, FL_Alt_L,
  FL_Alt_R, FL_Delete, FL_Alt_Gr\<close>.
\<close>

definition special_keys_equiv :: "int list" where
  "special_keys_equiv =
     [0xff08, 0xff09, 0xff0c, 0xff0d, 0xff13,
      0xff14, 0xff1b, 0xff2e, 0xff2f, 0xff30,
      0xff31, 0xff50, 0xff51, 0xff52, 0xff53,
      0xff54, 0xff55, 0xff56, 0xff57, 0xff61,
      0xff63, 0xff67, 0xff68, 0xff7f, 0xff80,
      0xff8d, 0xffbd, 0xffbd, 0xffe0, 0xffe1,
      0xffe2, 0xffe3, 0xffe4, 0xffe5, 0xffe7,
      0xffe8, 0xffe9, 0xffea, 0xffff, 0xfe03]"

text \<open>The search loop of \<^verbatim>\<open>special_key\<close>, from index \<open>i\<close> on; \<^verbatim>\<open>strcmp\<close> is equality.\<close>

fun special_key_from :: "string list \<Rightarrow> string \<Rightarrow> int \<Rightarrow> int" where
  "special_key_from [] k i = - 1"
| "special_key_from (e # es) k i = (if e = k then i else special_key_from es k (i + 1))"

definition special_key :: "string \<Rightarrow> int" where
  "special_key k = special_key_from special_keys k 0"

text \<open>
  The static event variables of the class \<^verbatim>\<open>Fl\<close> that the handlers write, with the
  file's own \<^verbatim>\<open>px\<close> and \<^verbatim>\<open>py\<close>.
\<close>

record fl =
  e_state :: int
  e_keysym :: int
  e_length :: int
  e_text :: string
  e_x :: int
  e_y :: int
  e_x_root :: int
  e_y_root :: int
  e_clicks :: int
  e_is_click :: int
  px :: int
  py :: int

text \<open>The event variables at program start: the statics are zero, the text is empty.\<close>

definition fl_start :: fl where
  "fl_start = \<lparr>e_state = 0, e_keysym = 0, e_length = 0, e_text = [], e_x = 0, e_y = 0,
      e_x_root = 0, e_y_root = 0, e_clicks = 0, e_is_click = 0, px = 0, py = 0\<rparr>"

record keyboard_event =
  key :: string
  ctrlKey :: bool
  altKey :: bool
  shiftKey :: bool
  metaKey :: bool

text \<open>\<^verbatim>\<open>keyEvent->key[0]\<close>: the first byte, the terminating 0 for the empty string.\<close>

definition first_byte :: "string \<Rightarrow> int" where
  "first_byte k = (case k of [] \<Rightarrow> 0 | c # cs \<Rightarrow> char_val c)"

definition set_keysym_and_state :: "keyboard_event \<Rightarrow> fl \<Rightarrow> fl" where
  "set_keysym_and_state keyEvent s =
     (let state = e_state s AND 0xff0000;
          s1 = (if special_key (key keyEvent) \<ge> 0
                then s\<lparr>e_keysym := special_keys_equiv ! nat (special_key (key keyEvent)),
                       e_length := 0, e_text := []\<rparr>
                else s\<lparr>e_keysym := first_byte (key keyEvent),
                       e_length := int (length (key keyEvent)),
                       e_text := key keyEvent\<rparr>);
          state1 = (if ctrlKey keyEvent then state OR FL_CTRL else state);
          state2 = (if altKey keyEvent then state1 OR FL_ALT else state1);
          state3 = (if shiftKey keyEvent then state2 OR FL_SHIFT else state2);
          state4 = (if metaKey keyEvent then state3 OR FL_META else state3)
      in s1\<lparr>e_state := state4\<rparr>)"






section \<open>Properties of the 32-bit int\<close>

text \<open>A value of the type is left as it is by the wrap-around.\<close>

lemma int32_id: "int_range v \<Longrightarrow> int32 v = v"
  by (simp add: int32_def int_range_def)

text \<open>
  The wrap-around of a product of three factors is that of the exact product, so
  a product that is a value of the type comes out exact.
\<close>

lemma int32_mult_left: "int32 (int32 a * b) = int32 (a * b)"
proof -
  let ?K = "2147483648::int" and ?M = "4294967296::int"
  have "((a + ?K) mod ?M - ?K) mod ?M = a mod ?M"
    by (simp add: mod_diff_left_eq)
  then have "(((a + ?K) mod ?M - ?K) * b) mod ?M = (a * b) mod ?M"
    by (metis mod_mult_left_eq)
  then have "(((a + ?K) mod ?M - ?K) * b + ?K) mod ?M = (a * b + ?K) mod ?M"
    by (metis mod_add_left_eq)
  then show ?thesis by (simp add: int32_def)
qed

lemma int32_of_nat: "n < 2147483648 \<Longrightarrow> int32 (int n) = int n"
  by (rule int32_id) (simp add: int_range_def)


section \<open>Properties of the clip stack\<close>

text \<open>
  \<^verbatim>\<open>clip_box\<close> against a top entry of non-negative width, when the sums
  \<open>x + w\<close>, \<open>y + h\<close>, the right and bottom edge of the entry and the extents of the
  intersection are values of the type \<^verbatim>\<open>int\<close>.
\<close>

lemma clip_box_nonneg:
  assumes "0 \<le> clip_w c"
    and "int_range (x + w)" "int_range (y + h)"
    and "int_range (clip_x c + clip_w c)" "int_range (clip_y c + clip_h c)"
    and "int_range (isect_w c x w)" "int_range (isect_h c y h)"
  shows "clip_box (c # cs) x y w h (X0, Y0, W0, H0) =
     (if isect_w c x w < 0 then (1, (isect_x c x, isect_y c y, 0, H0))
      else if isect_h c y h < 0 then (1, (isect_x c x, isect_y c y, 0, 0))
      else (if covers c x y w h then 0 else 1,
            (isect_x c x, isect_y c y, isect_w c x w, isect_h c y h)))"
proof -
  have sums: "int32 (x + w) = x + w" "int32 (y + h) = y + h"
    "int32 (clip_x c + clip_w c) = clip_x c + clip_w c"
    "int32 (clip_y c + clip_h c) = clip_y c + clip_h c"
    using assms by (simp_all add: int32_id)
  have w_eq: "x + w < clip_x c + clip_w c \<Longrightarrow> x + w - isect_x c x = isect_w c x w"
    "\<not> x + w < clip_x c + clip_w c \<Longrightarrow> clip_x c + clip_w c - isect_x c x = isect_w c x w"
    by (auto simp add: isect_w_def isect_x_def min_def)
  have h_eq: "y + h < clip_y c + clip_h c \<Longrightarrow> y + h - isect_y c y = isect_h c y h"
    "\<not> y + h < clip_y c + clip_h c \<Longrightarrow> clip_y c + clip_h c - isect_y c y = isect_h c y h"
    by (auto simp add: isect_h_def isect_y_def min_def)
  have wd: "x + w < clip_x c + clip_w c \<Longrightarrow> int32 (x + w - isect_x c x) = isect_w c x w"
    "\<not> x + w < clip_x c + clip_w c \<Longrightarrow>
       int32 (clip_x c + clip_w c - isect_x c x) = isect_w c x w"
    using int32_id [OF assms(6)] by (simp_all add: w_eq)
  have hd: "y + h < clip_y c + clip_h c \<Longrightarrow> int32 (y + h - isect_y c y) = isect_h c y h"
    "\<not> y + h < clip_y c + clip_h c \<Longrightarrow>
       int32 (clip_y c + clip_h c - isect_y c y) = isect_h c y h"
    using int32_id [OF assms(7)] by (simp_all add: h_eq)
  have X: "(if x > clip_x c then (x, 1::int) else (clip_x c, 0)) =
             (isect_x c x, if x > clip_x c then 1 else 0)"
    by (simp add: isect_x_def max_def)
  have Y: "\<And>r. (if y > clip_y c then (y, 1::int) else (clip_y c, r)) =
             (isect_y c y, if y > clip_y c then 1 else r)"
    by (simp add: isect_y_def max_def)
  have W: "\<And>r. (if x + w < clip_x c + clip_w c
                 then (int32 (int32 (x + w) - isect_x c x), 1::int)
                 else (int32 (int32 (clip_x c + clip_w c) - isect_x c x), r)) =
             (isect_w c x w, if x + w < clip_x c + clip_w c then 1 else r)"
    using wd by (simp add: sums)
  have H: "\<And>r. (if y + h < clip_y c + clip_h c
                 then (int32 (int32 (y + h) - isect_y c y), 1::int)
                 else (int32 (int32 (clip_y c + clip_h c) - isect_y c y), r)) =
             (isect_h c y h, if y + h < clip_y c + clip_h c then 1 else r)"
    using hd by (simp add: sums)
  have flag: "(if y + h < clip_y c + clip_h c then 1
               else if x + w < clip_x c + clip_w c then 1
               else if y > clip_y c then 1
               else if x > clip_x c then 1 else (0::int)) =
              (if covers c x y w h then 0 else 1)"
    by (simp add: covers_def)
  show ?thesis
    using assms(1)
    by (simp add: clip_box_def sums Let_def X Y W H flag)
qed

text \<open>
  C1, as the code has it. With no clip entry \<^verbatim>\<open>clip_box\<close> returns 0 and the outputs
  are the inputs; with a top entry of negative width it returns 1 and the outputs
  are the inputs. Otherwise, provided no sum or difference the code forms leaves
  the range of \<^verbatim>\<open>int\<close>: \<open>X\<close> and \<open>Y\<close> are the left and top edge of the
  intersection; when the width and the height of the intersection are both
  positive, \<open>W\<close> and \<open>H\<close> are that width and height and the return value is nonzero
  exactly when the rectangle does not cover the whole clip entry; when the width
  or the height is negative the return value is 1; \<open>W\<close> is 0 when the width is
  not positive or the height is negative; and \<open>H\<close> is 0 when the height is not
  positive and the width is not negative. Nothing is said of \<open>H\<close> when the width is
  negative, of \<open>W\<close> when the height is exactly 0, of \<open>H\<close> when the width is exactly
  0, nor of the return value when an extent is exactly 0.
\<close>

theorem clip_box_intersection:
  "clip_box [] x y w h out = (0, (x, y, w, h)) \<and>
   (clip_w c < 0 \<longrightarrow> clip_box (c # cs) x y w h out = (1, (x, y, w, h))) \<and>
   (0 \<le> clip_w c \<and> int_range (x + w) \<and> int_range (y + h) \<and>
    int_range (clip_x c + clip_w c) \<and> int_range (clip_y c + clip_h c) \<and>
    int_range (isect_w c x w) \<and> int_range (isect_h c y h) \<longrightarrow>
      (case clip_box (c # cs) x y w h out of
         (r, X, Y, W, H) \<Rightarrow>
           X = isect_x c x \<and> Y = isect_y c y \<and>
           (0 < isect_w c x w \<and> 0 < isect_h c y h \<longrightarrow>
              W = isect_w c x w \<and> H = isect_h c y h \<and> (r \<noteq> 0) = (\<not> covers c x y w h)) \<and>
           (isect_w c x w < 0 \<or> isect_h c y h < 0 \<longrightarrow> r = 1) \<and>
           (isect_w c x w \<le> 0 \<or> isect_h c y h < 0 \<longrightarrow> W = 0) \<and>
           (0 \<le> isect_w c x w \<and> isect_h c y h \<le> 0 \<longrightarrow> H = 0)))"
proof (intro conjI impI)
  show "clip_box [] x y w h out = (0, (x, y, w, h))"
    by (simp add: clip_box_def)
next
  assume "clip_w c < 0"
  then show "clip_box (c # cs) x y w h out = (1, (x, y, w, h))"
    by (simp add: clip_box_def)
next
  assume a: "0 \<le> clip_w c \<and> int_range (x + w) \<and> int_range (y + h) \<and>
    int_range (clip_x c + clip_w c) \<and> int_range (clip_y c + clip_h c) \<and>
    int_range (isect_w c x w) \<and> int_range (isect_h c y h)"
  obtain X0 Y0 W0 H0 where out: "out = (X0, Y0, W0, H0)"
    by (cases out) auto
  have box: "clip_box (c # cs) x y w h (X0, Y0, W0, H0) =
     (if isect_w c x w < 0 then (1, (isect_x c x, isect_y c y, 0, H0))
      else if isect_h c y h < 0 then (1, (isect_x c x, isect_y c y, 0, 0))
      else (if covers c x y w h then 0 else 1,
            (isect_x c x, isect_y c y, isect_w c x w, isect_h c y h)))"
    using a by (intro clip_box_nonneg) simp_all
  show "case clip_box (c # cs) x y w h out of
         (r, X, Y, W, H) \<Rightarrow>
           X = isect_x c x \<and> Y = isect_y c y \<and>
           (0 < isect_w c x w \<and> 0 < isect_h c y h \<longrightarrow>
              W = isect_w c x w \<and> H = isect_h c y h \<and> (r \<noteq> 0) = (\<not> covers c x y w h)) \<and>
           (isect_w c x w < 0 \<or> isect_h c y h < 0 \<longrightarrow> r = 1) \<and>
           (isect_w c x w \<le> 0 \<or> isect_h c y h < 0 \<longrightarrow> W = 0) \<and>
           (0 \<le> isect_w c x w \<and> isect_h c y h \<le> 0 \<longrightarrow> H = 0)"
    unfolding out box by auto
qed

text \<open>
  The theorem for the rectangle \<open>(5, 5, 10, 10)\<close> at a clip entry \<open>(0, 0, 10, 10)\<close>,
  for the rectangle \<open>(5, 50, 10, 10)\<close> below that entry, and at an entry pushed by
  \<^verbatim>\<open>push_no_clip\<close>.
\<close>

theorem clip_box_intersection_witness:
  "fst (clip_box [\<lparr>clip_x = 0, clip_y = 0, clip_w = 10, clip_h = 10\<rparr>] 5 5 10 10 (0, 0, 0, 0))
     \<noteq> 0 \<and>
   snd (clip_box [\<lparr>clip_x = 0, clip_y = 0, clip_w = 10, clip_h = 10\<rparr>] 5 5 10 10 (0, 0, 0, 0))
     = (5, 5, 5, 5) \<and>
   clip_box [\<lparr>clip_x = 0, clip_y = 0, clip_w = 10, clip_h = 10\<rparr>] 5 50 10 10 (0, 0, 0, 0)
     = (1, (5, 50, 0, 0)) \<and>
   clip_box [\<lparr>clip_x = - 1, clip_y = - 1, clip_w = - 1, clip_h = - 1\<rparr>] 5 5 10 10 (0, 0, 0, 0)
     = (1, (5, 5, 10, 10))"
proof -
  let ?c = "\<lparr>clip_x = 0, clip_y = 0, clip_w = 10, clip_h = 10\<rparr>"
  let ?n = "\<lparr>clip_x = - 1, clip_y = - 1, clip_w = - 1, clip_h = - 1\<rparr>"
  have inside: "fst (clip_box [?c] 5 5 10 10 (0, 0, 0, 0)) \<noteq> 0 \<and>
      snd (clip_box [?c] 5 5 10 10 (0, 0, 0, 0)) = (5, 5, 5, 5)"
    using clip_box_intersection [of 5 5 10 10 "(0, 0, 0, 0)" ?c "[]"]
    by (auto simp add: isect_x_def isect_y_def isect_w_def isect_h_def covers_def int_range_def)
  have below: "clip_box [?c] 5 50 10 10 (0, 0, 0, 0) = (1, (5, 50, 0, 0))"
    using clip_box_intersection [of 5 50 10 10 "(0, 0, 0, 0)" ?c "[]"]
    by (auto simp add: isect_x_def isect_y_def isect_w_def isect_h_def covers_def int_range_def)
  have no_clip: "clip_box [?n] 5 5 10 10 (0, 0, 0, 0) = (1, (5, 5, 10, 10))"
    using clip_box_intersection [of 5 5 10 10 "(0, 0, 0, 0)" ?n "[]"] by simp
  show ?thesis using inside below no_clip by simp
qed

text \<open>
  C1 as stated fails. The rectangle \<open>(10, 10, 20, 20)\<close> lies inside the clip entry
  \<open>(0, 0, 100, 100)\<close>, so the intersection is the rectangle itself, and yet
  \<^verbatim>\<open>clip_box\<close> returns 1: the return value is nonzero although the intersection
  does not differ from the input. And for the rectangle
  \<open>(5, 5, 2147483647, 2147483647)\<close> at the clip entry \<open>(0, 0, 10, 10)\<close> the sums
  \<open>x + w\<close> and \<open>y + h\<close> wrap around to a negative number, and \<open>W\<close> and \<open>H\<close> come out
  as 2147483647 where the intersection is 5 wide and 5 high.
\<close>

theorem clip_box_return_counterexample:
  "\<not> (fst (clip_box [\<lparr>clip_x = 0, clip_y = 0, clip_w = 100, clip_h = 100\<rparr>]
              10 10 20 20 (0, 0, 0, 0)) \<noteq> 0
       \<longleftrightarrow> snd (clip_box [\<lparr>clip_x = 0, clip_y = 0, clip_w = 100, clip_h = 100\<rparr>]
              10 10 20 20 (0, 0, 0, 0)) \<noteq> (10, 10, 20, 20)) \<and>
   snd (clip_box [\<lparr>clip_x = 0, clip_y = 0, clip_w = 10, clip_h = 10\<rparr>]
          5 5 2147483647 2147483647 (0, 0, 0, 0)) = (5, 5, 2147483647, 2147483647)"
  by (simp add: clip_box_def int32_def)

text \<open>
  The other failures of the sentence, at explicit inputs: a rectangle larger than
  the clip entry is cut down and the return value is 0; and when the width of the
  intersection is negative, \<open>H\<close> keeps the value it had on entry (7 here).
\<close>

lemma clip_box_examples:
  "clip_box [\<lparr>clip_x = 0, clip_y = 0, clip_w = 10, clip_h = 10\<rparr>] 0 0 20 20 (0, 0, 0, 0)
     = (0, (0, 0, 10, 10))"
  "clip_box [\<lparr>clip_x = 0, clip_y = 0, clip_w = 10, clip_h = 10\<rparr>] 50 0 5 5 (7, 7, 7, 7)
     = (1, (50, 0, 0, 7))"
  by (simp_all add: clip_box_def int32_def)

text \<open>
  The driver's own list of clip entries: \<^verbatim>\<open>push_clip\<close> and \<^verbatim>\<open>push_no_clip\<close> put one
  entry on top and leave the entries below as they were; \<^verbatim>\<open>pop_clip\<close> takes the top
  entry off; and \<^verbatim>\<open>pop_clip\<close> on an empty list changes nothing, not even the canvas.
\<close>

lemma clip_stack_entries:
  "(\<exists>c. emclip (push_clip x y w h s) = c # emclip s) \<and>
   (\<exists>c. emclip (push_no_clip s) = c # emclip s) \<and>
   (emclip s \<noteq> [] \<longrightarrow> emclip (pop_clip s) = tl (emclip s)) \<and>
   emclip (pop_clip (push_clip x y w h s)) = emclip s \<and>
   emclip (pop_clip (push_no_clip s)) = emclip s \<and>
   (emclip s = [] \<longrightarrow> pop_clip s = s)"
  by (auto simp add: push_clip_def push_no_clip_def pop_clip_def emit_def Let_def
        split: prod.splits list.splits)

text \<open>
  The whole driver state after a push and a pop: only the canvas has seen calls.
  After \<^verbatim>\<open>push_clip\<close> they are a \<^verbatim>\<open>save\<close>, the clip and a \<^verbatim>\<open>restore\<close>; after
  \<^verbatim>\<open>push_no_clip\<close> they are a \<^verbatim>\<open>save\<close> and two \<^verbatim>\<open>restore\<close>s.
\<close>

lemma push_clip_pop_clip_state:
  "\<exists>r. pop_clip (push_clip x y w h s) = emit [Save, r, Clip, Restore] s"
  by (auto simp add: push_clip_def pop_clip_def emit_def Let_def split: prod.splits)

lemma push_no_clip_pop_clip_state:
  "pop_clip (push_no_clip s) = emit [Save, Restore, Restore] s"
  by (simp add: push_no_clip_def pop_clip_def emit_def Let_def)

text \<open>
  C2 fails for \<^verbatim>\<open>push_no_clip\<close>. From the driver the constructor leaves,
  \<^verbatim>\<open>push_clip(0, 0, 10, 10)\<close> makes the canvas calls \<^verbatim>\<open>save\<close>, \<^verbatim>\<open>rect\<close>, \<^verbatim>\<open>clip\<close> and
  records the entry \<open>(0, 0, 10, 10)\<close>. \<^verbatim>\<open>push_no_clip\<close> followed by \<^verbatim>\<open>pop_clip\<close> then
  adds \<^verbatim>\<open>save\<close>, \<^verbatim>\<open>restore\<close>, \<^verbatim>\<open>restore\<close>: the second \<^verbatim>\<open>restore\<close> answers the \<^verbatim>\<open>save\<close>
  of \<^verbatim>\<open>push_clip\<close>, so the canvas is back in the state it had before the clip was
  set, while the list of clip entries still holds \<open>(0, 0, 10, 10)\<close>.
\<close>

theorem push_no_clip_unbalanced:
  "ctxt (push_clip 0 0 10 10 new_driver) = [Save, Rect (- 1 / 2) (- 1 / 2) 10 10, Clip] \<and>
   emclip (push_clip 0 0 10 10 new_driver) = [\<lparr>clip_x = 0, clip_y = 0, clip_w = 10, clip_h = 10\<rparr>] \<and>
   ctxt (pop_clip (push_no_clip (push_clip 0 0 10 10 new_driver))) =
     [Save, Rect (- 1 / 2) (- 1 / 2) 10 10, Clip, Save, Restore, Restore] \<and>
   emclip (pop_clip (push_no_clip (push_clip 0 0 10 10 new_driver))) =
     [\<lparr>clip_x = 0, clip_y = 0, clip_w = 10, clip_h = 10\<rparr>]"
  by (simp add: push_clip_def push_no_clip_def pop_clip_def emit_def Let_def new_driver_def
        clip_box_def)

text \<open>
  What \<^verbatim>\<open>not_clipped\<close> computes: with a top entry of non-negative width, and no sum
  or difference leaving the range of \<^verbatim>\<open>int\<close>, it is 1 exactly when the width of
  the intersection is positive and its height is not negative.
\<close>

lemma not_clipped_cases:
  "not_clipped [] x y w h = 1 \<and>
   (clip_w c < 0 \<longrightarrow> not_clipped (c # cs) x y w h = 1) \<and>
   (0 \<le> clip_w c \<and> int_range (x + w) \<and> int_range (y + h) \<and>
    int_range (clip_x c + clip_w c) \<and> int_range (clip_y c + clip_h c) \<and>
    int_range (isect_w c x w) \<and> int_range (isect_h c y h) \<longrightarrow>
      not_clipped (c # cs) x y w h = (if 0 < isect_w c x w \<and> 0 \<le> isect_h c y h then 1 else 0))"
  by (auto simp add: not_clipped_def clip_box_nonneg)

text \<open>
  C3 at the clip entry \<open>(0, 0, 10, 10)\<close>. The rectangle \<open>(0, 10, 5, 5)\<close> starts in the
  row below the clip region: the intersection has height 0, and \<^verbatim>\<open>not_clipped\<close>
  returns 1. The rectangle \<open>(10, 0, 5, 5)\<close>, which starts in the column to the right
  of it, gets 0.
\<close>

theorem not_clipped_touching_below:
  "not_clipped [\<lparr>clip_x = 0, clip_y = 0, clip_w = 10, clip_h = 10\<rparr>] 0 10 5 5 = 1 \<and>
   isect_h \<lparr>clip_x = 0, clip_y = 0, clip_w = 10, clip_h = 10\<rparr> 10 5 = 0 \<and>
   not_clipped [\<lparr>clip_x = 0, clip_y = 0, clip_w = 10, clip_h = 10\<rparr>] 10 0 5 5 = 0"
  by (simp add: not_clipped_def clip_box_def isect_h_def int32_def)


section \<open>Properties of the path state machine\<close>

text \<open>
  C4. Each \<^verbatim>\<open>begin_...\<close> sets its shape and the gap flag; each \<^verbatim>\<open>end_...\<close> sets the
  shape \<^verbatim>\<open>NONE\<close> and the gap flag; \<^verbatim>\<open>arc\<close> and \<^verbatim>\<open>curve\<close> with the shape \<^verbatim>\<open>NONE\<close>
  return the driver state they were given, the list of canvas calls included.
\<close>

theorem path_state_machine:
  "what (begin_points s) = POINTS \<and> gap (begin_points s) = 1 \<and>
   what (begin_line s) = LINE \<and> gap (begin_line s) = 1 \<and>
   what (begin_loop s) = LOOP \<and> gap (begin_loop s) = 1 \<and>
   what (begin_polygon s) = POLYGON \<and> gap (begin_polygon s) = 1 \<and>
   what (end_points s) = NONE \<and> gap (end_points s) = 1 \<and>
   what (end_line s) = NONE \<and> gap (end_line s) = 1 \<and>
   what (end_loop s) = NONE \<and> gap (end_loop s) = 1 \<and>
   what (end_polygon s) = NONE \<and> gap (end_polygon s) = 1 \<and>
   (what s = NONE \<longrightarrow> arc x y r start end' s = s) \<and>
   (what s = NONE \<longrightarrow> curve base_curve x y x1 y1 x2 y2 x3 y3 s = s)"
  by (simp add: begin_points_def begin_line_def begin_loop_def begin_polygon_def
        end_points_def end_line_def end_loop_def end_polygon_def arc_def curve_def
        emit_def concat_m_def reconcat_def)

text \<open>
  The theorem at the driver the constructor leaves, where the shape is \<^verbatim>\<open>NONE\<close>, and
  after \<^verbatim>\<open>begin_polygon\<close>.
\<close>

theorem path_state_machine_witness:
  "arc 0 0 1 0 90 new_driver = new_driver \<and>
   curve (\<lambda>s. s) 0 0 1 1 2 2 3 3 new_driver = new_driver \<and>
   what (begin_polygon new_driver) = POLYGON \<and>
   what (end_polygon (begin_polygon new_driver)) = NONE"
  using path_state_machine [of new_driver 0 0 1 0 90 "\<lambda>s. s" 1 1 2 2 3 3]
        path_state_machine [of "begin_polygon new_driver"]
  by (simp add: new_driver_def)


section \<open>Properties of line\_style\<close>










section \<open>Properties of invert\_matrix\<close>

text \<open>
  C9 at the matrix that scales by two. Its determinant is 4; \<^verbatim>\<open>1 / det\<close> is the
  integer division \<open>1 / 4 = 0\<close>, so \<^verbatim>\<open>invert_matrix\<close> returns 0 and writes the zero
  matrix, which sends the image of \<open>(1, 1)\<close> to \<open>(0, 0)\<close>. And at a matrix of
  determinant one half the determinant becomes the \<^verbatim>\<open>int\<close> 0: \<^verbatim>\<open>invert_matrix\<close>
  returns \<open>- 1\<close> and writes nothing.
\<close>

theorem invert_matrix_scale_by_two:
  "invert_matrix \<lparr>m_a = 2, m_b = 0, m_c = 0, m_d = 2, m_x = 0, m_y = 0\<rparr> newmatrix =
     (0, \<lparr>m_a = 0, m_b = 0, m_c = 0, m_d = 0, m_x = 0, m_y = 0\<rparr>) \<and>
   apply_matrix \<lparr>m_a = 0, m_b = 0, m_c = 0, m_d = 0, m_x = 0, m_y = 0\<rparr>
     (apply_matrix \<lparr>m_a = 2, m_b = 0, m_c = 0, m_d = 2, m_x = 0, m_y = 0\<rparr> (1, 1)) = (0, 0) \<and>
   invert_matrix \<lparr>m_a = 1 / 2, m_b = 0, m_c = 0, m_d = 1, m_x = 0, m_y = 0\<rparr> newmatrix =
     (- 1, newmatrix)"
  by (simp add: invert_matrix_def double_to_int_def c_div_def apply_matrix_def Let_def)

text \<open>
  In exact arithmetic, for a determinant of exactly 1 or \<open>- 1\<close> the result is the
  inverse.
\<close>

lemma invert_matrix_unit_det:
  assumes "m_a mt * m_d mt - m_b mt * m_c mt = 1 \<or> m_a mt * m_d mt - m_b mt * m_c mt = - 1"
  shows "fst (invert_matrix mt n) = 0 \<and>
         apply_matrix (snd (invert_matrix mt n)) (apply_matrix mt p) = p"
proof -
  obtain px py where p: "p = (px, py)" by (cases p) auto
  from assms show ?thesis
  proof
    assume det: "m_a mt * m_d mt - m_b mt * m_c mt = 1"
    have x: "(px * m_a mt + py * m_c mt + m_x mt) * m_d mt
           - (px * m_b mt + py * m_d mt + m_y mt) * m_c mt
           + (m_c mt * m_y mt - m_d mt * m_x mt)
           = px * (m_a mt * m_d mt - m_b mt * m_c mt)"
      by (simp add: algebra_simps)
    have y: "- ((px * m_a mt + py * m_c mt + m_x mt) * m_b mt)
           + (px * m_b mt + py * m_d mt + m_y mt) * m_a mt
           + (m_b mt * m_x mt - m_a mt * m_y mt)
           = py * (m_a mt * m_d mt - m_b mt * m_c mt)"
      by (simp add: algebra_simps)
    show ?thesis
      using x y
      by (simp add: invert_matrix_def double_to_int_def c_div_def apply_matrix_def Let_def det p)
  next
    assume det: "m_a mt * m_d mt - m_b mt * m_c mt = - 1"
    have x: "- ((px * m_a mt + py * m_c mt + m_x mt) * m_d mt)
           + (px * m_b mt + py * m_d mt + m_y mt) * m_c mt
           - (m_c mt * m_y mt - m_d mt * m_x mt)
           = - px * (m_a mt * m_d mt - m_b mt * m_c mt)"
      by (simp add: algebra_simps)
    have y: "(px * m_a mt + py * m_c mt + m_x mt) * m_b mt
           - (px * m_b mt + py * m_d mt + m_y mt) * m_a mt
           - (m_b mt * m_x mt - m_a mt * m_y mt)
           = - py * (m_a mt * m_d mt - m_b mt * m_c mt)"
      by (simp add: algebra_simps)
    show ?thesis
      using x y
      by (simp add: invert_matrix_def double_to_int_def c_div_def apply_matrix_def Let_def det p)
  qed
qed


section \<open>Properties of the keyboard and mouse handlers\<close>

lemma special_key_from_first:
  "0 \<le> i \<Longrightarrow> k \<in> set es \<Longrightarrow>
   (\<exists>j < length es. special_key_from es k i = i + int j \<and> es ! j = k \<and> (\<forall>j' < j. es ! j' \<noteq> k))"
proof (induction es arbitrary: i)
  case Nil
  then show ?case by simp
next
  case (Cons e es)
  show ?case
  proof (cases "e = k")
    case True
    then show ?thesis by (intro exI [of _ 0]) simp
  next
    case False
    with Cons.prems have "k \<in> set es" by simp
    from Cons.IH [OF _ this, of "i + 1"] Cons.prems(1)
    obtain j where j: "j < length es" "special_key_from es k (i + 1) = i + 1 + int j"
      "es ! j = k" "\<forall>j' < j. es ! j' \<noteq> k" by auto
    show ?thesis
    proof (intro exI [of _ "Suc j"] conjI allI impI)
      show "Suc j < length (e # es)" using j by simp
      show "special_key_from (e # es) k i = i + int (Suc j)" using j False by simp
      show "(e # es) ! Suc j = k" using j by simp
      fix j' assume "j' < Suc j"
      then show "(e # es) ! j' \<noteq> k" using j(4) False by (cases j') auto
    qed
  qed
qed

lemma special_key_from_none: "k \<notin> set es \<Longrightarrow> special_key_from es k i = - 1"
  by (induction es arbitrary: i) auto



lemma and_single_bit: "((st::int) AND 2 ^ n \<noteq> 0) = bit st n"
  by (simp add: bit_iff_and_push_bit_not_eq_0 and.commute)

lemma FL_powers:
  "FL_SHIFT = 2 ^ 16" "FL_CTRL = 2 ^ 18" "FL_ALT = 2 ^ 19" "FL_META = 2 ^ 22"
  "FL_BUTTON1 = 2 ^ 24" "FL_BUTTON2 = 2 ^ 25" "FL_BUTTON3 = 2 ^ 26"
  by (simp_all add: FL_SHIFT_def FL_CTRL_def FL_ALT_def FL_META_def
        FL_BUTTON1_def FL_BUTTON2_def FL_BUTTON3_def)

lemma bit_FL:
  "bit FL_SHIFT n \<longleftrightarrow> n = 16" "bit FL_CTRL n \<longleftrightarrow> n = 18" "bit FL_ALT n \<longleftrightarrow> n = 19"
  "bit FL_META n \<longleftrightarrow> n = 22" "bit FL_BUTTON1 n \<longleftrightarrow> n = 24" "bit FL_BUTTON2 n \<longleftrightarrow> n = 25"
  "bit FL_BUTTON3 n \<longleftrightarrow> n = 26"
  unfolding FL_powers by (simp_all only: bit_exp_iff possible_bit_int simp_thms)

lemma and_FL:
  "(st AND FL_SHIFT \<noteq> 0) = bit st 16" "(st AND FL_CTRL \<noteq> 0) = bit st 18"
  "(st AND FL_ALT \<noteq> 0) = bit st 19" "(st AND FL_META \<noteq> 0) = bit st 22"
  "(st AND FL_BUTTON1 \<noteq> 0) = bit st 24" "(st AND FL_BUTTON2 \<noteq> 0) = bit st 25"
  "(st AND FL_BUTTON3 \<noteq> 0) = bit st 26"
  unfolding FL_powers by (simp_all only: and_single_bit)

lemma bit_modifier_mask: "bit (0xff0000::int) n \<longleftrightarrow> 16 \<le> n \<and> n < 24"
proof -
  have "(0xff0000::int) = push_bit 16 (mask 8)"
    by (simp add: mask_eq_exp_minus_1 push_bit_eq_mult)
  then show ?thesis
    by (simp only: bit_push_bit_iff bit_mask_iff possible_bit_int) auto
qed

lemma key_state_bit:
  "bit (e_state (set_keysym_and_state ev s)) n =
     (bit (e_state s) n \<and> 16 \<le> n \<and> n < 24 \<or>
      ctrlKey ev \<and> n = 18 \<or> altKey ev \<and> n = 19 \<or> shiftKey ev \<and> n = 16 \<or> metaKey ev \<and> n = 22)"
  by (auto simp add: set_keysym_and_state_def Let_def bit_and_iff bit_or_iff bit_FL bit_modifier_mask)

lemma modifier_bits_sticky:
  "(e_state (set_keysym_and_state ev s) AND FL_CTRL \<noteq> 0) = (ctrlKey ev \<or> e_state s AND FL_CTRL \<noteq> 0)"
  "(e_state (set_keysym_and_state ev s) AND FL_ALT \<noteq> 0) = (altKey ev \<or> e_state s AND FL_ALT \<noteq> 0)"
  "(e_state (set_keysym_and_state ev s) AND FL_SHIFT \<noteq> 0) = (shiftKey ev \<or> e_state s AND FL_SHIFT \<noteq> 0)"
  "(e_state (set_keysym_and_state ev s) AND FL_META \<noteq> 0) = (metaKey ev \<or> e_state s AND FL_META \<noteq> 0)"
  by (auto simp add: and_FL key_state_bit)

text \<open>
  The parts of C5 that hold: key symbol, text and length; the search returns the
  index of the first entry equal to the key, and \<open>- 1\<close> when there is none.
\<close>

lemma set_keysym_and_state_key:
  "(0 \<le> special_key (key ev) \<longrightarrow>
      e_keysym (set_keysym_and_state ev s) = special_keys_equiv ! nat (special_key (key ev)) \<and>
      e_length (set_keysym_and_state ev s) = 0 \<and> e_text (set_keysym_and_state ev s) = []) \<and>
   (special_key (key ev) < 0 \<longrightarrow>
      e_keysym (set_keysym_and_state ev s) = first_byte (key ev) \<and>
      e_length (set_keysym_and_state ev s) = int (length (key ev)) \<and>
      e_text (set_keysym_and_state ev s) = key ev)"
  by (simp add: set_keysym_and_state_def Let_def)

lemma special_key_found:
  assumes "k \<in> set special_keys"
  shows "\<exists>j < length special_keys. special_key k = int j \<and> special_keys ! j = k \<and>
           (\<forall>j' < j. special_keys ! j' \<noteq> k)"
  using special_key_from_first [of 0 k special_keys] assms by (simp add: special_key_def)

lemma special_key_not_found: "k \<notin> set special_keys \<Longrightarrow> special_key k = - 1"
  by (simp add: special_key_def special_key_from_none)

text \<open>
  C5 on two key events in a row, from the start state: first the key \<^verbatim>\<open>Control\<close>
  with \<^verbatim>\<open>ctrlKey\<close> set, then the key \<^verbatim>\<open>a\<close> with no modifier flag set. After the
  second event \<^verbatim>\<open>FL_CTRL\<close> is still set in \<^verbatim>\<open>Fl::e_state\<close>: the mask \<^verbatim>\<open>0xff0000\<close>
  keeps the modifier bits of the state before the event (see
  \<open>modifier_bits_sticky\<close>).
\<close>

theorem ctrl_stays_set:
  "\<not> ctrlKey \<lparr>key = ''a'', ctrlKey = False, altKey = False, shiftKey = False, metaKey = False\<rparr> \<and>
   e_state (set_keysym_and_state
      \<lparr>key = ''a'', ctrlKey = False, altKey = False, shiftKey = False, metaKey = False\<rparr>
      (set_keysym_and_state
         \<lparr>key = ''Control'', ctrlKey = True, altKey = False, shiftKey = False, metaKey = False\<rparr>
         fl_start)) AND FL_CTRL = FL_CTRL"
  by (simp add: set_keysym_and_state_def fl_start_def FL_CTRL_def Let_def)







section \<open>Properties of the image conversion\<close>

declare copy4.simps [simp del] copy3.simps [simp del] copy2.simps [simp del] copy1.simps [simp del]
















text \<open>
  The two ways out of \<^verbatim>\<open>draw_fixed\<close> that reach no canvas call: a negative
  \<^verbatim>\<open>data_w * data_h * 4\<close> makes \<^verbatim>\<open>image_data.reserve\<close> throw, and a nonzero return
  value of \<^verbatim>\<open>start_image\<close> ends the function.
\<close>

lemma draw_fixed_length_error:
  assumes "img_d rgb \<noteq> 0" "img_array rgb \<noteq> None"
    and "fst (start_image rgb XP YP WP HP cx cy s) = 0"
    and "data_w rgb * data_h rgb * 4 < 0" "- 2147483648 \<le> data_w rgb * data_h rgb * 4"
  shows "draw_fixed draw_empty start_image rgb XP YP WP HP cx cy s = Inl Length_error"
proof -
  have "int_range (data_w rgb * data_h rgb * 4)"
    using assms(4, 5) by (auto simp add: int_range_def)
  then have "int32 (int32 (data_w rgb * data_h rgb) * 4) = data_w rgb * data_h rgb * 4"
    by (simp only: int32_mult_left int32_id)
  then have "int32 (int32 (data_w rgb * data_h rgb) * 4) < 0"
    using assms(4) by (simp only:)
  then show ?thesis
    using assms(1-3) by (auto simp add: draw_fixed_def split: prod.splits)
qed

lemma draw_fixed_not_started:
  "img_d rgb \<noteq> 0 \<Longrightarrow> img_array rgb \<noteq> None \<Longrightarrow>
   fst (start_image rgb XP YP WP HP cx cy s) \<noteq> 0 \<Longrightarrow>
   draw_fixed draw_empty start_image rgb XP YP WP HP cx cy s = Inr s"
  by (auto simp add: draw_fixed_def split: prod.splits)


section \<open>Properties of draw\_image with a row callback\<close>

declare set_opaque.simps [simp del] image_rows.simps [simp del]

lemma pixel_in_row: "i < W \<Longrightarrow> i * d + d \<le> W * (d::nat)"
proof -
  assume "i < W"
  then have "Suc i * d \<le> W * d" by (intro mult_le_mono1) simp
  then show ?thesis by simp
qed

lemma row_in_image: "l < H \<Longrightarrow> l * d * W + W * d \<le> H * d * (W::nat)"
proof -
  assume "l < H"
  then have "Suc l * (d * W) \<le> H * (d * W)" by (intro mult_le_mono1) simp
  then show ?thesis by (simp add: algebra_simps)
qed

lemma last_channel_bounds:
  assumes "0 < d" "i < W"
  shows "l * d * W \<le> last_channel W d l i" "last_channel W d l i < l * d * W + W * d"
  using assms pixel_in_row [of i W d] by (auto simp add: last_channel_def)

lemma last_channel_int:
  assumes "0 < d"
  shows "int (l * d * W) + int (i * d) + int d - 1 = int (last_channel W d l i)"
  using assms by (simp add: last_channel_def of_nat_diff)

text \<open>The \<^verbatim>\<open>int\<close> products \<^verbatim>\<open>l * D * iw\<close> and \<^verbatim>\<open>i * D\<close> inside an array of fewer than 2147483648 bytes.\<close>

lemma row_offset:
  assumes "l * d * W < 2147483648"
  shows "int32 (int32 (int l * int d) * int W) = int (l * d * W)"
proof -
  have "int32 (int32 (int l * int d) * int W) = int32 (int (l * d * W))"
    by (simp only: int32_mult_left of_nat_mult)
  also have "\<dots> = int (l * d * W)" using assms by (rule int32_of_nat)
  finally show ?thesis .
qed

lemma pixel_offset:
  assumes "i * d < 2147483648"
  shows "int32 (int i * int d) = int (i * d)"
proof -
  have "int32 (int i * int d) = int32 (int (i * d))"
    by (simp only: of_nat_mult)
  also have "\<dots> = int (i * d)" using assms by (rule int32_of_nat)
  finally show ?thesis .
qed

text \<open>
  The inner loop writes \<^verbatim>\<open>0xff\<close> at the last channel of the pixels from \<open>i\<close> on and
  leaves every other byte as it was.
\<close>

lemma set_opaque_row:
  assumes d: "0 < d" and fits: "l * d * W + W * d \<le> N" and small: "N < 2147483648"
  shows "i \<le> W \<Longrightarrow> length array = N \<Longrightarrow>
     \<exists>a. set_opaque (int W) (int d) (int l) i array = Some a \<and> length a = N \<and>
         (\<forall>j < N. a ! j = (if \<exists>i'. i \<le> i' \<and> i' < W \<and> j = last_channel W d l i' then 0xff
                            else array ! j))"
proof (induction "W - i" arbitrary: i array)
  case 0
  then have "i = W" by simp
  then show ?case using 0 by (subst set_opaque.simps) auto
next
  case (Suc n)
  then have lt: "i < W" by simp
  let ?p = "last_channel W d l i"
  have p: "?p < N" using last_channel_bounds [OF d lt, of l] fits by simp
  have "l * d * W < 2147483648" using fits small by linarith
  then have row: "int32 (int32 (int l * int d) * int W) = int (l * d * W)"
    by (rule row_offset)
  have "i * d + d \<le> W * d" using lt by (rule pixel_in_row)
  then have "i * d < 2147483648" using fits small by linarith
  then have pixel: "int32 (int i * int d) = int (i * d)"
    by (rule pixel_offset)
  have pos: "int32 (int32 (int l * int d) * int W) + int32 (int i * int d) + int d - 1 = int ?p"
    unfolding row pixel using d by (rule last_channel_int)
  have step: "set_opaque (int W) (int d) (int l) i array =
                set_opaque (int W) (int d) (int l) (Suc i) (array[?p := 0xff])"
    using lt p Suc.prems
    by (subst set_opaque.simps, simp only: Let_def pos, simp)
  have "\<exists>a. set_opaque (int W) (int d) (int l) (Suc i) (array[?p := 0xff]) = Some a \<and>
          length a = N \<and>
          (\<forall>j < N. a ! j = (if \<exists>i'. Suc i \<le> i' \<and> i' < W \<and> j = last_channel W d l i' then 0xff
                            else (array[?p := 0xff]) ! j))"
    using Suc lt by (intro Suc.hyps(1)) auto
  then obtain a where a: "set_opaque (int W) (int d) (int l) (Suc i) (array[?p := 0xff]) = Some a"
    "length a = N"
    "\<forall>j < N. a ! j = (if \<exists>i'. Suc i \<le> i' \<and> i' < W \<and> j = last_channel W d l i' then 0xff
                            else (array[?p := 0xff]) ! j)"
    by blast
  have "\<forall>j < N. a ! j = (if \<exists>i'. i \<le> i' \<and> i' < W \<and> j = last_channel W d l i' then 0xff
                            else array ! j)"
  proof (intro allI impI)
    fix j assume j: "j < N"
    show "a ! j = (if \<exists>i'. i \<le> i' \<and> i' < W \<and> j = last_channel W d l i' then 0xff else array ! j)"
    proof (cases "\<exists>i'. Suc i \<le> i' \<and> i' < W \<and> j = last_channel W d l i'")
      case True
      then obtain i' where "Suc i \<le> i'" "i' < W" "j = last_channel W d l i'" by blast
      then have "i \<le> i' \<and> i' < W \<and> j = last_channel W d l i'" by simp
      then have "\<exists>i'. i \<le> i' \<and> i' < W \<and> j = last_channel W d l i'" ..
      with True a(3) j show ?thesis by simp
    next
      case later: False
      show ?thesis
      proof (cases "j = ?p")
        case True
        then have "\<exists>i'. i \<le> i' \<and> i' < W \<and> j = last_channel W d l i'" using lt by blast
        with later a(3) j True Suc.prems show ?thesis by simp
      next
        case neq: False
        have "a ! j = (if \<exists>i'. Suc i \<le> i' \<and> i' < W \<and> j = last_channel W d l i' then 0xff
                       else (array[?p := 0xff]) ! j)"
          using a(3) j by blast
        also have "\<dots> = (array[?p := 0xff]) ! j" using later by (rule if_not_P)
        also have "\<dots> = array ! j" using neq by simp
        finally have unchanged: "a ! j = array ! j" .
        have none: "\<not> (\<exists>i'. i \<le> i' \<and> i' < W \<and> j = last_channel W d l i')"
        proof
          assume "\<exists>i'. i \<le> i' \<and> i' < W \<and> j = last_channel W d l i'"
          then obtain i' where i': "i \<le> i'" "i' < W" "j = last_channel W d l i'" by blast
          with neq have "i' \<noteq> i" by auto
          with i' have "Suc i \<le> i'" by simp
          with i' later show False by blast
        qed
        show ?thesis
          by (rule trans [OF unchanged if_not_P [OF none, symmetric] ])
      qed
    qed
  qed
  with a step show ?case by simp
qed

text \<open>
  The call of the callback for row \<open>l\<close> leaves in the row what the callback wrote
  and leaves every byte outside the row as it was.
\<close>

lemma call_row_spec:
  assumes fits: "l * d * W + W * d \<le> N" and small: "N < 2147483648" and len: "length array = N"
  shows "\<exists>a. call_row call (int W) (int d) (int l) array = Some a \<and> length a = N \<and>
           (\<forall>j < l * d * W. a ! j = array ! j) \<and>
           (\<forall>k < W * d. a ! (l * d * W + k) =
              call 0 (int l) (int W) (take (W * d) (drop (l * d * W) array)) k) \<and>
           (\<forall>j. l * d * W + W * d \<le> j \<and> j < N \<longrightarrow> a ! j = array ! j)"
proof -
  let ?off = "l * d * W" and ?n = "W * d"
  let ?buf = "take ?n (drop ?off array)"
  let ?filled = "map (call 0 (int l) (int W) ?buf) [0..<?n]"
  let ?a = "take ?off array @ ?filled @ drop (?off + ?n) array"
  have "?off < 2147483648" using fits small by linarith
  then have off: "int32 (int32 (int l * int d) * int W) = int ?off"
    by (rule row_offset)
  have nats: "nat (int l * int d * int W) = ?off" "nat (int W * int d) = ?n"
    by (simp_all only: of_nat_mult [symmetric] nat_int)
  have res: "call_row call (int W) (int d) (int l) array = Some ?a"
    unfolding call_row_def Let_def off using fits len by (simp add: nats)
  have la: "length ?a = N" using fits len by simp
  have before: "\<forall>j < ?off. ?a ! j = array ! j"
    using fits len by (simp add: nth_append)
  have row: "\<forall>k < ?n. ?a ! (?off + k) = call 0 (int l) (int W) ?buf k"
    using fits len by (simp add: nth_append)
  have after: "\<forall>j. ?off + ?n \<le> j \<and> j < N \<longrightarrow> ?a ! j = array ! j"
    using fits len by (auto simp add: nth_append)
  show ?thesis using res la before row after by blast
qed

text \<open>
  An offset \<open>k\<close> into a row is the last channel of a pixel exactly when
  \<open>k mod d = d - 1\<close>.
\<close>

lemma last_channel_of_offset:
  assumes d: "0 < d" and last: "k mod d = d - 1"
  shows "last_channel W d l (k div d) = l * d * W + k"
proof -
  have "k div d * d + (d - 1) = k" using last div_mult_mod_eq [of k d] by simp
  then have "l * d * W + k div d * d + (d - 1) = l * d * W + k" by simp
  then show ?thesis using d by (simp add: last_channel_def)
qed

lemma offset_of_last_channel:
  assumes d: "0 < d" and eq: "l * d * W + k = last_channel W d l i"
  shows "k mod d = d - 1"
proof -
  have "l * d * W + k = l * d * W + (i * d + (d - 1))"
    using eq d unfolding last_channel_def by linarith
  then have "k = i * d + (d - 1)" by (simp only: add_left_cancel)
  then have "k mod d = (d - 1) mod d" by (simp only: mod_mult_self3)
  also have "\<dots> = d - 1" using d by simp
  finally show ?thesis .
qed

text \<open>
  The outer loop. Before row \<open>l\<close> is filled, the rows above it hold what the
  callback wrote with \<^verbatim>\<open>0xff\<close> in every last channel, and the rows from \<open>l\<close> on
  still hold what the allocation left there.
\<close>

lemma image_rows_spec:
  assumes d: "0 < d" and even: "int d mod 2 = 0" and small: "H * d * W < 2147483648"
  shows "l \<le> H \<Longrightarrow> length array = H * d * W \<Longrightarrow>
     (\<forall>l' < l. \<forall>k < W * d. array ! (l' * d * W + k) =
        (if k mod d = d - 1 then 0xff
         else call 0 (int l') (int W) (map junk [l' * d * W..<l' * d * W + W * d]) k)) \<Longrightarrow>
     (\<forall>j. l * d * W \<le> j \<and> j < H * d * W \<longrightarrow> array ! j = junk j) \<Longrightarrow>
     \<exists>a. image_rows call (int W) (int H) (int d) l array = Some a \<and> length a = H * d * W \<and>
         (\<forall>l' < H. \<forall>k < W * d. a ! (l' * d * W + k) =
            (if k mod d = d - 1 then 0xff
             else call 0 (int l') (int W) (map junk [l' * d * W..<l' * d * W + W * d]) k))"
proof (induction "H - l" arbitrary: l array)
  case 0
  then have "l = H" by simp
  then show ?case using 0 by (subst image_rows.simps) simp
next
  case (Suc n)
  then have lt: "l < H" by simp
  let ?N = "H * d * W" and ?off = "l * d * W" and ?n = "W * d"
  let ?buf = "map junk [?off..<?off + ?n]"
  have fits: "?off + ?n \<le> ?N" using lt by (rule row_in_image)
  have buf: "take ?n (drop ?off array) = ?buf"
  proof (rule nth_equalityI)
    show "length (take ?n (drop ?off array)) = length ?buf"
      using fits Suc.prems(2) by simp
  next
    fix k assume "k < length (take ?n (drop ?off array))"
    then have k: "k < ?n" by simp
    then have "?off \<le> ?off + k \<and> ?off + k < ?N" using fits by simp
    then have known: "array ! (?off + k) = junk (?off + k)" using Suc.prems(4) by blast
    have inside: "?off \<le> length array" using fits Suc.prems(2) by linarith
    have "take ?n (drop ?off array) ! k = drop ?off array ! k" using k by simp
    also have "\<dots> = array ! (?off + k)" using inside by (simp only: nth_drop)
    also have "\<dots> = junk (?off + k)" by (rule known)
    also have "\<dots> = ?buf ! k" using k by simp
    finally show "take ?n (drop ?off array) ! k = ?buf ! k" .
  qed
  obtain a1 where a1: "call_row call (int W) (int d) (int l) array = Some a1" "length a1 = ?N"
    "\<forall>j < ?off. a1 ! j = array ! j"
    "\<forall>k < ?n. a1 ! (?off + k) = call 0 (int l) (int W) ?buf k"
    "\<forall>j. ?off + ?n \<le> j \<and> j < ?N \<longrightarrow> a1 ! j = array ! j"
    using call_row_spec [OF fits small Suc.prems(2), of call] unfolding buf by blast
  obtain a2 where a2: "set_opaque (int W) (int d) (int l) 0 a1 = Some a2" "length a2 = ?N"
    "\<forall>j < ?N. a2 ! j = (if \<exists>i'. 0 \<le> i' \<and> i' < W \<and> j = last_channel W d l i' then 0xff
                          else a1 ! j)"
    using set_opaque_row [OF d fits small _ a1(2), of 0] by blast
  have step: "image_rows call (int W) (int H) (int d) l array =
                image_rows call (int W) (int H) (int d) (Suc l) a2"
    using lt a1(1) a2(1) even by (subst image_rows.simps) simp
  have other_rows: "a2 ! j = a1 ! j" if j: "j < ?N" and out: "j < ?off \<or> ?off + ?n \<le> j" for j
  proof -
    have none: "\<not> (\<exists>i'. 0 \<le> i' \<and> i' < W \<and> j = last_channel W d l i')"
    proof
      assume "\<exists>i'. 0 \<le> i' \<and> i' < W \<and> j = last_channel W d l i'"
      then obtain i' where i': "i' < W" "j = last_channel W d l i'" by blast
      show False using last_channel_bounds [OF d i'(1), of l] i'(2) out by simp
    qed
    have "a2 ! j = (if \<exists>i'. 0 \<le> i' \<and> i' < W \<and> j = last_channel W d l i' then 0xff
                    else a1 ! j)"
      using a2(3) j by blast
    also have "\<dots> = a1 ! j" using none by (rule if_not_P)
    finally show ?thesis .
  qed
  have done_rows: "\<forall>l' < Suc l. \<forall>k < ?n. a2 ! (l' * d * W + k) =
        (if k mod d = d - 1 then 0xff
         else call 0 (int l') (int W) (map junk [l' * d * W..<l' * d * W + W * d]) k)"
  proof (intro allI impI)
    fix l' k assume l': "l' < Suc l" and k: "k < ?n"
    show "a2 ! (l' * d * W + k) =
        (if k mod d = d - 1 then 0xff
         else call 0 (int l') (int W) (map junk [l' * d * W..<l' * d * W + W * d]) k)"
    proof (cases "l' = l")
      case True
      have jN: "?off + k < ?N" using fits k by simp
      have here: "a2 ! (?off + k) =
          (if \<exists>i'. 0 \<le> i' \<and> i' < W \<and> ?off + k = last_channel W d l i' then 0xff
           else a1 ! (?off + k))"
        using a2(3) jN by blast
      show ?thesis
      proof (cases "k mod d = d - 1")
        case last: True
        have "k div d < W" using k by (simp add: less_mult_imp_div_less)
        moreover have "?off + k = last_channel W d l (k div d)"
          using last_channel_of_offset [OF d last, of W l] by simp
        ultimately have "\<exists>i'. 0 \<le> i' \<and> i' < W \<and> ?off + k = last_channel W d l i'"
          by blast
        then have "a2 ! (?off + k) = 0xff" using here by (simp only: if_True)
        then show ?thesis using True last by simp
      next
        case other: False
        have none: "\<not> (\<exists>i'. 0 \<le> i' \<and> i' < W \<and> ?off + k = last_channel W d l i')"
        proof
          assume "\<exists>i'. 0 \<le> i' \<and> i' < W \<and> ?off + k = last_channel W d l i'"
          then obtain i' where "?off + k = last_channel W d l i'" by blast
          then have "k mod d = d - 1" using d by (intro offset_of_last_channel)
          with other show False by simp
        qed
        have "a2 ! (?off + k) = a1 ! (?off + k)"
          by (rule trans [OF here if_not_P [OF none] ])
        also have "\<dots> = call 0 (int l) (int W) ?buf k" using a1(4) k by blast
        finally show ?thesis using True other by simp
      qed
    next
      case False
      with l' have below: "l' < l" by simp
      have "l' * d * W + ?n \<le> ?off" using below by (rule row_in_image)
      then have j: "l' * d * W + k < ?off" using k by simp
      then have jN: "l' * d * W + k < ?N" using fits by simp
      have "a2 ! (l' * d * W + k) = a1 ! (l' * d * W + k)"
        using jN j by (intro other_rows) simp_all
      also have "\<dots> = array ! (l' * d * W + k)" using a1(3) j by blast
      also have "\<dots> = (if k mod d = d - 1 then 0xff
         else call 0 (int l') (int W) (map junk [l' * d * W..<l' * d * W + W * d]) k)"
        using Suc.prems(3) below k by blast
      finally show ?thesis .
    qed
  qed
  have junk_rest: "\<forall>j. Suc l * d * W \<le> j \<and> j < ?N \<longrightarrow> a2 ! j = junk j"
  proof (intro allI impI)
    fix j assume j: "Suc l * d * W \<le> j \<and> j < ?N"
    have "Suc l * d * W = ?off + ?n" by (simp add: algebra_simps)
    then have after: "?off + ?n \<le> j" "j < ?N" "?off \<le> j" using j by simp_all
    have "a2 ! j = a1 ! j" using after by (intro other_rows) simp_all
    also have "\<dots> = array ! j" using a1(5) after by blast
    also have "\<dots> = junk j" using Suc.prems(4) after by blast
    finally show "a2 ! j = junk j" .
  qed
  have "\<exists>a. image_rows call (int W) (int H) (int d) (Suc l) a2 = Some a \<and>
          length a = H * d * W \<and>
          (\<forall>l' < H. \<forall>k < W * d. a ! (l' * d * W + k) =
            (if k mod d = d - 1 then 0xff
             else call 0 (int l') (int W) (map junk [l' * d * W..<l' * d * W + W * d]) k))"
    using Suc.hyps(2) lt a2(2) done_rows junk_rest by (intro Suc.hyps(1)) auto
  then show ?case using step by simp
qed

text \<open>
  C10, as the code has it. For a positive even depth \<open>D\<close>, a width and a height
  that are not negative and a size \<^verbatim>\<open>iw * D * ih\<close> that is a value of the type
  \<^verbatim>\<open>int\<close>, the array handed to \<^verbatim>\<open>draw_rgb\<close> holds, for every pixel of every row,
  \<^verbatim>\<open>0xff\<close> in the last channel and, in every other channel, the byte the callback
  wrote there when it was called for the row.
\<close>

theorem draw_image_opaque:
  assumes D: "0 < D" "D mod 2 = 0" and size: "0 \<le> iw" "0 \<le> ih"
    and small: "iw * D * ih < 2147483648"
  shows "\<exists>array. image_array call junk iw ih D = Inr array \<and>
           length array = nat (iw * D * ih) \<and>
           (\<forall>l i c. 0 \<le> l \<and> l < ih \<and> 0 \<le> i \<and> i < iw \<and> 0 \<le> c \<and> c < D \<longrightarrow>
              array ! nat (l * D * iw + i * D + c) =
                (if c = D - 1 then 0xff
                 else call 0 l iw (fresh_row junk iw D l) (nat (i * D + c)))) \<and>
           draw_image draw_rgb call junk ix iy iw ih D s =
             Inr (draw_rgb \<lparr>data_w = iw, data_h = ih, img_d = D, img_ld = 0,
                             img_array = Some array\<rparr> ix iy iw ih 0 0 s)"
proof -
  define W H d where "W = nat iw" and "H = nat ih" and "d = nat D"
  have ints: "iw = int W" "ih = int H" "D = int d" and d: "0 < d"
    using D size by (simp_all add: W_def H_def d_def)
  have even: "int d mod 2 = 0" using D(2) by (simp only: ints)
  have product: "int W * int d * int H = int (H * d * W)"
    by (simp add: mult.commute mult.assoc)
  then have "int (H * d * W) < int 2147483648" using small by (simp only: ints)
  then have small': "H * d * W < 2147483648" by (simp only: of_nat_less_iff)
  have "int32 (int32 (iw * D) * ih) = int32 (int (H * d * W))"
    by (simp only: int32_mult_left ints product)
  also have "\<dots> = int (H * d * W)" using small' by (rule int32_of_nat)
  finally have alloc: "int32 (int32 (iw * D) * ih) = int (H * d * W)" .
  have total: "nat (iw * D * ih) = H * d * W"
    by (simp only: ints product nat_int)
  let ?fresh = "map junk [0..<H * d * W]"
  have "\<exists>a. image_rows call (int W) (int H) (int d) 0 ?fresh = Some a \<and> length a = H * d * W \<and>
         (\<forall>l' < H. \<forall>k < W * d. a ! (l' * d * W + k) =
            (if k mod d = d - 1 then 0xff
             else call 0 (int l') (int W) (map junk [l' * d * W..<l' * d * W + W * d]) k))"
    using d even small' by (rule image_rows_spec) simp_all
  then obtain array where array: "image_rows call (int W) (int H) (int d) 0 ?fresh = Some array"
    "length array = H * d * W"
    "\<forall>l' < H. \<forall>k < W * d. array ! (l' * d * W + k) =
            (if k mod d = d - 1 then 0xff
             else call 0 (int l') (int W) (map junk [l' * d * W..<l' * d * W + W * d]) k)"
    by blast
  define N where "N = H * d * W"
  have "image_array call junk iw ih D =
      (case image_rows call iw ih D 0 (map junk [0..<N]) of
         None \<Rightarrow> Inl Out_of_bounds | Some array \<Rightarrow> Inr array)"
    unfolding image_array_def Let_def alloc N_def [symmetric] by simp
  then have made: "image_array call junk iw ih D = Inr array"
    using array(1) by (simp only: N_def ints option.case)
  have bytes: "\<forall>l i c. 0 \<le> l \<and> l < ih \<and> 0 \<le> i \<and> i < iw \<and> 0 \<le> c \<and> c < D \<longrightarrow>
              array ! nat (l * D * iw + i * D + c) =
                (if c = D - 1 then 0xff
                 else call 0 l iw (fresh_row junk iw D l) (nat (i * D + c)))"
  proof (intro allI impI)
    fix l i c :: int
    assume a: "0 \<le> l \<and> l < ih \<and> 0 \<le> i \<and> i < iw \<and> 0 \<le> c \<and> c < D"
    define l' i' c' where "l' = nat l" and "i' = nat i" and "c' = nat c"
    have l: "l = int l'" "l' < H" and i: "i = int i'" "i' < W" and c: "c = int c'" "c' < d"
      using a unfolding ints l'_def i'_def c'_def by linarith+
    let ?k = "i' * d + c'"
    have "i' * d + d \<le> W * d" using i(2) by (rule pixel_in_row)
    then have k: "?k < W * d" using c(2) by linarith
    have kmod: "?k mod d = c'" using c(2) by simp
    have "l * D * iw + i * D + c = int (l' * d * W + ?k)"
      by (simp add: l(1) i(1) c(1) ints)
    then have idx: "nat (l * D * iw + i * D + c) = l' * d * W + ?k"
      by (simp only: nat_int)
    have "i * D + c = int ?k" by (simp add: i(1) c(1) ints)
    then have idx2: "nat (i * D + c) = ?k" by (simp only: nat_int)
    have "l * D * iw = int (l' * d * W)" "iw * D = int (W * d)"
      by (simp_all add: l(1) ints)
    then have fr: "fresh_row junk iw D l = map junk [l' * d * W..<l' * d * W + W * d]"
      unfolding fresh_row_def by (simp only: nat_int)
    have last: "(c = D - 1) = (c' = d - 1)"
      using c d by (auto simp add: ints of_nat_diff)
    have "array ! (l' * d * W + ?k) =
            (if ?k mod d = d - 1 then 0xff
             else call 0 (int l') (int W) (map junk [l' * d * W..<l' * d * W + W * d]) ?k)"
      using array(3) l(2) k by blast
    then show "array ! nat (l * D * iw + i * D + c) =
                (if c = D - 1 then 0xff
                 else call 0 l iw (fresh_row junk iw D l) (nat (i * D + c)))"
      unfolding idx idx2 fr last kmod by (simp only: l(1) [symmetric] ints(1) [symmetric])
  qed
  have "length array = nat (iw * D * ih)"
    using array(2) by (simp only: total)
  then show ?thesis
    using made bytes by (simp add: draw_image_def)
qed

text \<open>
  The theorem on an image of two pixels of depth 2 in one row, with a callback
  that writes 7 into every byte.
\<close>

theorem draw_image_opaque_witness:
  "\<exists>array. image_array (\<lambda>x y w buf k. 7) (\<lambda>n. 0) 2 1 2 = Inr array \<and>
     length array = 4 \<and> array ! 0 = 7 \<and> array ! 1 = 0xff \<and> array ! 2 = 7 \<and> array ! 3 = 0xff"
proof -
  obtain array where array:
    "image_array (\<lambda>x y w buf k. 7) (\<lambda>n. 0) 2 1 2 = Inr array"
    "length array = nat (2 * 2 * 1)"
    "\<forall>l i c. 0 \<le> l \<and> l < 1 \<and> 0 \<le> i \<and> i < 2 \<and> 0 \<le> c \<and> c < 2 \<longrightarrow>
       array ! nat (l * 2 * 2 + i * 2 + c) = (if c = 2 - 1 then 0xff else 7)"
    using draw_image_opaque [where D = 2 and iw = 2 and ih = 1
            and call = "\<lambda>x y w buf k. 7" and junk = "\<lambda>n. 0"
            and draw_rgb = "\<lambda>rgb XP YP WP HP cx cy s. s" and ix = 0 and iy = 0
            and s = new_driver]
    by auto
  have "array ! nat (0 * 2 * 2 + 0 * 2 + 0) = (if (0::int) = 2 - 1 then 0xff else 7)"
    using array(3) [rule_format, of 0 0 0] by simp
  moreover have "array ! nat (0 * 2 * 2 + 0 * 2 + 1) = (if (1::int) = 2 - 1 then 0xff else 7)"
    using array(3) [rule_format, of 0 0 1] by simp
  moreover have "array ! nat (0 * 2 * 2 + 1 * 2 + 0) = (if (0::int) = 2 - 1 then 0xff else 7)"
    using array(3) [rule_format, of 0 1 0] by simp
  moreover have "array ! nat (0 * 2 * 2 + 1 * 2 + 1) = (if (1::int) = 2 - 1 then 0xff else 7)"
    using array(3) [rule_format, of 0 1 1] by simp
  ultimately show ?thesis using array(1, 2) by simp
qed

text \<open>
  C10 as stated fails for the even depths that are not positive. With \<open>D = 0\<close> the
  first store of the inner loop goes to \<^verbatim>\<open>array + 0 + 0 + 0 - 1\<close>, the byte before
  the array; with \<open>D = - 2\<close> the size \<^verbatim>\<open>iw * D * ih\<close> of the array is negative. In
  neither case is an image drawn.
\<close>

theorem draw_image_depth_counterexample:
  "draw_image (\<lambda>rgb XP YP WP HP cx cy s. s) (\<lambda>x y w buf k. 0) (\<lambda>n. 0) 0 0 1 1 0 new_driver
     = Inl Out_of_bounds \<and>
   draw_image (\<lambda>rgb XP YP WP HP cx cy s. s) (\<lambda>x y w buf k. 0) (\<lambda>n. 0) 0 0 1 1 (- 2) new_driver
     = Inl Bad_array_new_length"
proof -
  have "set_opaque 1 0 0 0 [] = None"
    by (subst set_opaque.simps) (simp add: int32_def)
  then have "image_rows (\<lambda>x y w buf k. 0) 1 1 0 0 [] = None"
    by (subst image_rows.simps) (simp add: call_row_def int32_def)
  then show ?thesis
    by (simp add: draw_image_def image_array_def int32_def)
qed


end
